theory Spec2Isabelle
  imports Complex_Main "HOL-Library.Sublist"
begin

section \<open>Python strings\<close>

text \<open>
  Python \<open>str\<close> values are modelled as \<open>string\<close> (the UTF-8 bytes of the text).
  All keywords the programs search for are ASCII, so substring tests on the bytes agree
  with the tests on code points.
\<close>

text \<open>\<open>pat in s\<close> on strings: \<open>pat\<close> occurs as a contiguous substring of \<open>s\<close>.\<close>

fun str_in :: "string \<Rightarrow> string \<Rightarrow> bool" where
  "str_in pat [] = (pat = [])"
| "str_in pat (c # cs) = (prefix pat (c # cs) \<or> str_in pat cs)"

text \<open>\<open>any(p in s for p in pats)\<close>.\<close>

definition any_in :: "string list \<Rightarrow> string \<Rightarrow> bool" where
  "any_in pats s = list_ex (\<lambda>p. str_in p s) pats"

text \<open>
  \<open>s.lower()\<close>: the letters A to Z are mapped to a to z, every other byte is kept
  (letters outside ASCII are left as they are).
\<close>

definition lower_char :: "char \<Rightarrow> char" where
  "lower_char c =
     (if 65 \<le> (of_char c :: nat) \<and> (of_char c :: nat) \<le> 90
      then char_of ((of_char c :: nat) + 32) else c)"

definition lower :: "string \<Rightarrow> string" where
  "lower s = map lower_char s"

text \<open>\<open>s.split(sep)\<close> for a one-character separator; the result is never empty.\<close>

fun split_on :: "char \<Rightarrow> string \<Rightarrow> string list" where
  "split_on sep [] = [[]]"
| "split_on sep (c # cs) =
     (if c = sep then [] # split_on sep cs
      else (case split_on sep cs of
              [] \<Rightarrow> [[c]]
            | piece # pieces \<Rightarrow> (c # piece) # pieces))"

text \<open>\<open>sep.join(xs)\<close>.\<close>

fun join :: "string \<Rightarrow> string list \<Rightarrow> string" where
  "join sep [] = []"
| "join sep [x] = x"
| "join sep (x # y # ys) = x @ sep @ join sep (y # ys)"

text \<open>
  \<open>s.strip()\<close>: leading and trailing ASCII white space is removed (white space
  outside ASCII is not modelled).
\<close>

definition is_space :: "char \<Rightarrow> bool" where
  "is_space c = ((of_char c :: nat) \<in> {9, 10, 11, 12, 13, 28, 29, 30, 31, 32})"

definition strip :: "string \<Rightarrow> string" where
  "strip s = rev (dropWhile is_space (rev (dropWhile is_space s)))"

abbreviation NL :: char where
  "NL \<equiv> CHR 0x0A"

section \<open>Build history and statistics (master\_gui\_app.py)\<close>

text \<open>
  Durations and time stamps are Python floats; they are modelled as reals, so sums and
  quotients are exact. The counters are Python ints.
\<close>

record build_record =
  timestamp :: real
  command :: string
  description :: string
  success :: bool
  duration :: real
  error_message :: "string option"
  platform :: string

record build_stats =
  total_builds :: int
  successful_builds :: int
  failed_builds :: int
  average_build_time :: real
  last_build_time :: "real option"

text \<open>
  The part of the application object that the history code reads and writes, together
  with the content of the history file (\<open>None\<close>: the file does not exist).
\<close>

record gui_state =
  build_history :: "build_record list"
  stats :: build_stats
  history_file :: "(build_record list \<times> build_stats) option"

text \<open>The statistics dictionary as \<open>__init__\<close> and \<open>_clear_build_history\<close> build it.\<close>

definition zero_stats :: build_stats where
  "zero_stats = \<lparr>total_builds = 0, successful_builds = 0, failed_builds = 0,
     average_build_time = 0, last_build_time = None\<rparr>"

text \<open>\<open>xs[-100:]\<close>.\<close>

definition last100 :: "'a list \<Rightarrow> 'a list" where
  "last100 xs = drop (length xs - 100) xs"

text \<open>
  \<open>load_build_history\<close>: when the file exists, history and statistics are replaced by
  what it holds (the file is only ever written by \<open>save_build_history\<close>, so both keys
  are present).
\<close>

definition load_build_history :: "gui_state \<Rightarrow> gui_state" where
  "load_build_history s =
     (case history_file s of
        None \<Rightarrow> s
      | Some (h, st) \<Rightarrow> s\<lparr>build_history := h, stats := st\<rparr>)"

text \<open>
  \<open>save_build_history\<close>: the last 100 records and the statistics are written. A failing
  write is caught and logged by the source and leaves the file as it was (\<open>ok = False\<close>).
\<close>

definition save_build_history :: "bool \<Rightarrow> gui_state \<Rightarrow> gui_state" where
  "save_build_history ok s =
     (if ok then s\<lparr>history_file := Some (last100 (build_history s), stats s)\<rparr> else s)"

text \<open>\<open>_extract_platform_from_command\<close>, on the text \<open>str(command)\<close>.\<close>

definition extract_platform_from_command :: "string \<Rightarrow> string" where
  "extract_platform_from_command command_text =
     (let cmd_str = lower command_text in
      if str_in ''windows'' cmd_str then ''windows''
      else if str_in ''android'' cmd_str \<or> str_in ''apk'' cmd_str then ''android''
      else if str_in ''ios'' cmd_str then ''ios''
      else if str_in ''web'' cmd_str then ''web''
      else ''unknown'')"

text \<open>
  The arguments of one call of \<open>record_build_attempt\<close>. \<open>a_command\<close> is the text
  \<open>str(command)\<close>; \<open>a_time1\<close> and \<open>a_time2\<close> are the values of the two calls of
  \<open>time.time()\<close>; \<open>a_saved\<close> tells whether the write of the history file succeeds.
\<close>

record attempt =
  a_command :: string
  a_description :: string
  a_success :: bool
  a_duration :: real
  a_error_message :: "string option"
  a_time1 :: real
  a_time2 :: real
  a_saved :: bool

text \<open>The dictionary \<open>build_record\<close> that \<open>record_build_attempt\<close> appends.\<close>

definition build_record_of :: "attempt \<Rightarrow> build_record" where
  "build_record_of a =
     \<lparr>timestamp = a_time1 a, command = a_command a,
      description = a_description a, success = a_success a,
      duration = a_duration a, error_message = a_error_message a,
      platform = extract_platform_from_command (a_command a)\<rparr>"

definition record_build_attempt :: "gui_state \<Rightarrow> attempt \<Rightarrow> gui_state" where
  "record_build_attempt s a =
     (let history = build_history s @ [build_record_of a];
          st1 = (stats s)\<lparr>total_builds := total_builds (stats s) + 1,
                            last_build_time := Some (a_time2 a)\<rparr>;
          st2 = (if a_success a
                 then st1\<lparr>successful_builds := successful_builds st1 + 1\<rparr>
                 else st1\<lparr>failed_builds := failed_builds st1 + 1\<rparr>);
          total_time = sum_list (map duration (filter success history));
          successful = successful_builds st2;
          st3 = (if successful > 0
                 then st2\<lparr>average_build_time := total_time / real_of_int successful\<rparr>
                 else st2)
      in save_build_history (a_saved a) (s\<lparr>build_history := history, stats := st3\<rparr>))"

text \<open>\<open>_calculate_success_rate\<close>.\<close>

definition calculate_success_rate :: "gui_state \<Rightarrow> real" where
  "calculate_success_rate s =
     (let total = total_builds (stats s) in
      if total = 0 then 0
      else (real_of_int (successful_builds (stats s)) / real_of_int total) * 100)"

text \<open>A fresh application object: \<open>__init__\<close> followed by \<open>load_build_history\<close>.\<close>

definition start_app :: "(build_record list \<times> build_stats) option \<Rightarrow> gui_state" where
  "start_app file =
     load_build_history \<lparr>build_history = [], stats = zero_stats, history_file = file\<rparr>"

text \<open>A sequence of calls of \<open>record_build_attempt\<close> on one application object.\<close>

definition record_all :: "gui_state \<Rightarrow> attempt list \<Rightarrow> gui_state" where
  "record_all s as = foldl record_build_attempt s as"



section \<open>Exceptions\<close>

text \<open>The Python exceptions that the modelled functions can raise, with their text.\<close>

datatype exn =
    ZeroDivisionError
  | NameError string
  | UnboundLocalError string
  | TypeError string
  | OSError string

section \<open>Build metrics of the enhanced build manager (build\_manager\_enhanced.py)\<close>






section \<open>Running a Flutter command (isuite\_master\_app.py, class BuildManager)\<close>

text \<open>The dictionary \<open>error_patterns\<close>, in insertion order.\<close>

definition error_patterns :: "(string \<times> string list) list" where
  "error_patterns =
     [(''compilation_error'', [''error:'', ''Error:'', ''ERROR:'']),
      (''dependency_error'', [''failed:'', ''Failed:'', ''FAILED:'']),
      (''permission_error'', [''permission denied'', ''Permission denied'', ''access denied'']),
      (''flutter_error'', [''FlutterError'', ''flutter:'']),
      (''import_error'', [''import error'', ''ImportError''])]"

text \<open>
  \<open>any(pattern in line for patterns in self.error_patterns.values() for pattern in patterns)\<close>:
  the test that marks a line as an error line. It is case sensitive.
\<close>

definition is_error_line :: "string \<Rightarrow> bool" where
  "is_error_line line = list_ex (\<lambda>patterns. any_in patterns line) (map snd error_patterns)"

record flutter_entry =
  fe_timestamp :: string
  fe_command :: string
  fe_success :: bool
  fe_output :: string
  fe_errors :: "string list"

text \<open>
  What happens when the command is run: \<open>Popen\<close> or the reading raises, or the process
  writes the given lines (as \<open>readline\<close> returns them) and exits with a return code.
\<close>

datatype process_run =
    TimeoutExpired
  | Raised string
  | Exited "string list" int

text \<open>
  The loop over the output lines: the accumulators are \<open>output_lines\<close>,
  \<open>error_detected\<close> and \<open>error_details\<close>. The output callback is a collaborator and
  has no part in the result.
\<close>

fun read_lines ::
  "string list \<Rightarrow> string list \<times> bool \<times> string list \<Rightarrow> string list \<times> bool \<times> string list"
where
  "read_lines [] acc = acc"
| "read_lines (line # rest) (output_lines, error_detected, error_details) =
     (if line \<noteq> [] then
        (if is_error_line line
         then read_lines rest (output_lines @ [strip line], True, error_details @ [strip line])
         else read_lines rest (output_lines @ [strip line], error_detected, error_details))
      else read_lines rest (output_lines, error_detected, error_details))"

text \<open>
  \<open>run_flutter_command\<close>: the state is \<open>build_history\<close>; \<open>now\<close> is
  \<open>datetime.now().isoformat()\<close>. The result is the new history and the returned pair.
\<close>

definition run_flutter_command ::
  "flutter_entry list \<Rightarrow> string list \<Rightarrow> process_run \<Rightarrow> string
     \<Rightarrow> flutter_entry list \<times> (bool \<times> string)"
where
  "run_flutter_command history cmd run now =
     (case run of
        Exited lines returncode \<Rightarrow>
          (let (output_lines, error_detected, error_details) = read_lines lines ([], False, []);
               succeeded = (returncode = 0 \<and> \<not> error_detected);
               output = join [NL] output_lines;
               output' = (if error_detected
                          then output @ [NL, NL] @ ''ERRORS DETECTED:'' @ [NL] @ concat error_details
                          else output)
           in (history @ [\<lparr>fe_timestamp = now, fe_command = join '' '' cmd,
                              fe_success = succeeded, fe_output = output',
                              fe_errors = (if error_detected then error_details else [])\<rparr>],
               (succeeded, output')))
      | TimeoutExpired \<Rightarrow> (history, (False, ''Command timed out''))
      | Raised e \<Rightarrow> (history, (False, ''Command execution error: '' @ e)))"

section \<open>Classifying output lines (master\_gui\_app.py, run\_command\_async)\<close>

text \<open>The level with which a line of the standard output is logged.\<close>

definition classify_line :: "string \<Rightarrow> string" where
  "classify_line line =
     (if any_in [''error'', ''failed'', ''exception''] (lower line) then ''error''
      else if any_in [''warning'', ''deprecated''] (lower line) then ''warning''
      else ''info'')"

text \<open>The log entries (line, level) written for \<open>result.stdout\<close>.\<close>

definition log_stdout :: "string \<Rightarrow> (string \<times> string) list" where
  "log_stdout out =
     (if out \<noteq> [] then map (\<lambda>line. (line, classify_line line)) (split_on NL (strip out))
      else [])"

text \<open>The log entries written for \<open>result.stderr\<close>.\<close>

definition log_stderr :: "int \<Rightarrow> string \<Rightarrow> (string \<times> string) list" where
  "log_stderr returncode err =
     (if err \<noteq> []
      then map (\<lambda>line. (line, if returncode = 0 then ''warning'' else ''error''))
             (split_on NL (strip err))
      else [])"

section \<open>Single-flight command execution (build\_manager.py)\<close>

record bm_entry =
  e_timestamp :: string
  e_command :: string
  e_description :: string
  e_status :: string
  e_return_code :: "int option"
  e_error :: "string option"

text \<open>
  The fields of the build manager that \<open>run_command\<close> and its worker thread touch.
  \<open>warnings\<close> lists the \<open>messagebox.showwarning\<close> dialogs shown so far;
  \<open>in_flight\<close> lists the commands handed to a worker thread whose thread has not yet
  reset \<open>is_building\<close> (each worker starts one process with \<open>Popen\<close>);
  \<open>history_json\<close> is the content of \<open>build_history.json\<close>.
\<close>

record bm_state =
  is_building :: bool
  bm_history :: "bm_entry list"
  warnings :: "(string \<times> string) list"
  progress_running :: bool
  status_var :: string
  in_flight :: "(string \<times> string) list"
  history_json :: "bm_entry list option"

definition bm_init :: bm_state where
  "bm_init = \<lparr>is_building = False, bm_history = [], warnings = [],
     progress_running = False, status_var = ''Ready'', in_flight = [],
     history_json = None\<rparr>"

text \<open>
  \<open>run_command\<close>, executed on the thread of the user interface. The second component
  is the outcome of the call: \<open>Inr ()\<close> is a normal return (of \<open>None\<close>), \<open>Inl e\<close> a
  raised exception.
\<close>

definition run_command :: "bm_state \<Rightarrow> string \<Rightarrow> string \<Rightarrow> bm_state \<times> (exn + unit)" where
  "run_command s cmd descr =
     (if is_building s
      then (s\<lparr>warnings := warnings s @
                [(''Build in Progress'', ''Another build is already running!'')]\<rparr>, Inr ())
      else (s\<lparr>is_building := True, progress_running := True,
               status_var := ''Running: '' @ descr,
               in_flight := in_flight s @ [(cmd, descr)]\<rparr>, Inr ()))"

text \<open>How the body of the worker thread ends: the process returns a code, or something raises.\<close>

datatype worker_end = Returned int | Excepted string

text \<open>
  \<open>run_in_thread\<close>, from the end of the process to the end of its \<open>finally\<close> block,
  for the oldest command in flight. \<open>now\<close> is \<open>datetime.now().isoformat()\<close>,
  \<open>saved\<close> tells whether writing \<open>build_history.json\<close> succeeds.
\<close>

definition run_in_thread :: "bm_state \<Rightarrow> worker_end \<Rightarrow> string \<Rightarrow> bool \<Rightarrow> bm_state" where
  "run_in_thread s w now saved =
     (case in_flight s of
        [] \<Rightarrow> s
      | (cmd, descr) # rest \<Rightarrow>
          (let entry =
                 (case w of
                    Returned return_code \<Rightarrow>
                      (if return_code = 0
                       then \<lparr>e_timestamp = now, e_command = cmd, e_description = descr,
                             e_status = ''SUCCESS'', e_return_code = None, e_error = None\<rparr>
                       else \<lparr>e_timestamp = now, e_command = cmd, e_description = descr,
                             e_status = ''FAILED'', e_return_code = Some return_code,
                             e_error = None\<rparr>)
                  | Excepted e \<Rightarrow>
                      \<lparr>e_timestamp = now, e_command = cmd, e_description = descr,
                       e_status = ''EXCEPTION'', e_return_code = None, e_error = Some e\<rparr>);
               h = bm_history s @ [entry]
           in s\<lparr>bm_history := h, is_building := False, progress_running := False,
                 status_var := ''Ready'', in_flight := rest,
                 history_json := (if saved then Some h else history_json s)\<rparr>))"

text \<open>What can happen to a build manager: a call of \<open>run_command\<close>, or a worker ends.\<close>

datatype bm_event = Run_command string string | Worker_ends worker_end string bool

fun bm_step :: "bm_state \<Rightarrow> bm_event \<Rightarrow> bm_state" where
  "bm_step s (Run_command cmd descr) = fst (run_command s cmd descr)"
| "bm_step s (Worker_ends w now saved) = run_in_thread s w now saved"

definition bm_run :: "bm_event list \<Rightarrow> bm_state" where
  "bm_run evs = foldl bm_step bm_init evs"

section \<open>Quality report (build\_optimizer\_enhanced.py)\<close>

datatype CheckStatus = SUCCESS | WARNING | ERROR | INFO








section \<open>CI/CD analyzer (ci\_cd\_analyzer.py)\<close>

subsection \<open>Issues and the project\<close>

text \<open>
  An issue is a Python dictionary with string keys, kept in insertion order; its values
  are strings, line numbers or \<open>None\<close>.
\<close>

datatype jval = Str string | Num nat | Null

type_synonym issue = "(string \<times> jval) list"

text \<open>\<open>str(n)\<close> for a natural number and \<open>s.count(sub)\<close>.\<close>

fun str_of_nat :: "nat \<Rightarrow> string" where
  "str_of_nat n =
     (if n < 10 then [char_of (48 + n)]
      else str_of_nat (n div 10) @ [char_of (48 + n mod 10)])"

function str_count :: "string \<Rightarrow> string \<Rightarrow> nat" where
  "str_count sub s =
     (if sub = [] then length s + 1
      else if s = [] then 0
      else if prefix sub s then 1 + str_count sub (drop (length sub) s)
      else str_count sub (tl s))"
  by pat_completeness auto
termination
  by (relation "measure (\<lambda>(sub, s). length s)") auto

text \<open>
  What the analyzer sees of the project directory and of the tools it calls.
  \<open>files\<close> maps a path below the project directory to what is there;
  \<open>test_files\<close> is the result of \<open>test_path.glob("**/*_test.dart")\<close>;
  \<open>dart_files\<close> is the result of \<open>project_path.glob("**/*.dart")\<close>, each with its
  name, its path as a string and its content (\<open>None\<close> when reading it raises);
  \<open>run_tool\<close> is \<open>subprocess.run\<close> and \<open>re_search pattern text\<close> is
  \<open>re.search(pattern, text, re.IGNORECASE)\<close> as a truth value.
\<close>

datatype fnode = File string | Directory

datatype tool_result = Tool_raises string | Completed int string

record project =
  files :: "string \<Rightarrow> fnode option"
  test_files :: "string list"
  dart_files :: "(string \<times> string \<times> string option) list"
  run_tool :: "string list \<Rightarrow> tool_result"
  re_search :: "string \<Rightarrow> string \<Rightarrow> bool"

abbreviation SQ :: char where
  "SQ \<equiv> CHR 0x27"

abbreviation DQ :: char where
  "DQ \<equiv> CHR 0x22"

abbreviation BSL :: char where
  "BSL \<equiv> CHR 0x5C"

text \<open>\<open>open(path, 'r')\<close> followed by \<open>f.read()\<close>.\<close>

definition read_text :: "(string \<Rightarrow> fnode option) \<Rightarrow> string \<Rightarrow> exn + string" where
  "read_text fs path =
     (case fs path of
        None \<Rightarrow> Inl (OSError (''[Errno 2] No such file or directory: '' @ [SQ] @ path @ [SQ]))
      | Some Directory \<Rightarrow> Inl (OSError (''[Errno 21] Is a directory: '' @ [SQ] @ path @ [SQ]))
      | Some (File content) \<Rightarrow> Inr content)"

text \<open>\<open>str(e)\<close>.\<close>

fun exn_text :: "exn \<Rightarrow> string" where
  "exn_text ZeroDivisionError = ''division by zero''"
| "exn_text (NameError n) = ''name '' @ [SQ] @ n @ [SQ] @ '' is not defined''"
| "exn_text (UnboundLocalError n) =
     ''cannot access local variable '' @ [SQ] @ n @ [SQ] @
     '' where it is not associated with a value''"
| "exn_text (TypeError m) = m"
| "exn_text (OSError m) = m"

subsection \<open>The rules\<close>

fun find_line_from :: "nat \<Rightarrow> string \<Rightarrow> string list \<Rightarrow> nat option" where
  "find_line_from i pattern [] = None"
| "find_line_from i pattern (line # rest) =
     (if str_in pattern line then Some i else find_line_from (Suc i) pattern rest)"

definition find_line_number :: "string \<Rightarrow> string \<Rightarrow> jval" where
  "find_line_number content pattern =
     (case find_line_from 1 pattern (split_on NL content) of
        None \<Rightarrow> Null | Some i \<Rightarrow> Num i)"

definition analyze_workflow_structure :: "string \<Rightarrow> issue list" where
  "analyze_workflow_structure content =
     (if \<not> str_in ''timeout-minutes:'' content
      then [[(''type'', Str ''timeout_missing''), (''severity'', Str ''medium''),
             (''description'', Str ''No timeout specified for jobs''),
             (''fix'', Str ''Add timeout-minutes to all jobs''),
             (''line'', find_line_number content ''jobs:'')]]
      else []) @
     (if \<not> str_in ''cache:'' content
      then [[(''type'', Str ''cache_missing''), (''severity'', Str ''medium''),
             (''description'', Str ''No caching configured''),
             (''fix'', Str ''Add Flutter caching to speed up builds''),
             (''line'', find_line_number content ''uses: subosito/flutter-action@v2'')]]
      else []) @
     (if \<not> str_in ''continue-on-error:'' content \<and> \<not> str_in ''if: failure()'' content
      then [[(''type'', Str ''error_handling_missing''), (''severity'', Str ''high''),
             (''description'', Str ''No error handling in workflow''),
             (''fix'', Str ''Add continue-on-error or proper error handling''),
             (''line'', find_line_number content ''steps:'')]]
      else []) @
     (if \<not> str_in ''uses: actions/upload-artifact@v3'' content
      then [[(''type'', Str ''artifact_upload_missing''), (''severity'', Str ''medium''),
             (''description'', Str ''No artifact upload configured''),
             (''fix'', Str ''Add artifact upload for build results''),
             (''line'', find_line_number content ''flutter build'')]]
      else [])"

definition analyze_dependency_issues :: "project \<Rightarrow> exn + issue list" where
  "analyze_dependency_issues p =
     (if files p ''pubspec.yaml'' \<noteq> None then
        (case read_text (files p) ''pubspec.yaml'' of
           Inl e \<Rightarrow> Inl e
         | Inr content \<Rightarrow> Inr (
             (if \<not> str_in ''sdk:'' content
              then [[(''type'', Str ''sdk_constraint_missing''), (''severity'', Str ''high''),
                     (''description'', Str ''No SDK version constraint''),
                     (''fix'', Str (''Add sdk: '' @ [SQ] @ ''>=2.17.0 <4.0.0'' @ [SQ] @
                                     '' to pubspec.yaml'')),
                     (''file'', Str ''pubspec.yaml'')]]
              else []) @
             (case run_tool p [''flutter'', ''pub'', ''outdated''] of
                Completed returncode out \<Rightarrow>
                  (if returncode = 0 then
                     (let outdated_deps = str_count ''outdated'' out in
                      if outdated_deps > 0
                      then [[(''type'', Str ''outdated_dependencies''),
                             (''severity'', Str ''medium''),
                             (''description'',
                                Str (str_of_nat outdated_deps @ '' outdated dependencies'')),
                             (''fix'', Str (''Run '' @ [SQ] @ ''flutter pub upgrade'' @ [SQ] @
                                             '' to update dependencies'')),
                             (''file'', Str ''pubspec.yaml'')]]
                      else [])
                   else [])
              | Tool_raises e \<Rightarrow>
                  [[(''type'', Str ''dependency_check_failed''), (''severity'', Str ''low''),
                    (''description'', Str (''Failed to check dependencies: '' @ e)),
                    (''fix'', Str ''Ensure Flutter SDK is properly installed''),
                    (''file'', Str ''pubspec.yaml'')]])))
      else Inr [])"

definition analyze_build_issues :: "project \<Rightarrow> exn + issue list" where
  "analyze_build_issues p =
     (if files p ''pubspec.yaml'' \<noteq> None then
        (case read_text (files p) ''pubspec.yaml'' of
           Inl e \<Rightarrow> Inl e
         | Inr content \<Rightarrow> Inr (
             (if \<not> str_in ''flutter_lints:'' content
              then [[(''type'', Str ''linting_missing''), (''severity'', Str ''low''),
                     (''description'', Str ''No linting rules configured''),
                     (''fix'', Str ''Add flutter_lints to dev_dependencies''),
                     (''file'', Str ''pubspec.yaml'')]]
              else []) @
             (if \<not> str_in ''flutter_test:'' content
              then [[(''type'', Str ''test_dependencies_missing''), (''severity'', Str ''medium''),
                     (''description'', Str ''No test dependencies configured''),
                     (''fix'', Str ''Add flutter_test to dev_dependencies''),
                     (''file'', Str ''pubspec.yaml'')]]
              else []) @
             (if \<not> str_in ''build_runner:'' content \<and> str_in ''json_serializable:'' content
              then [[(''type'', Str ''build_runner_missing''), (''severity'', Str ''medium''),
                     (''description'', Str ''json_serializable requires build_runner''),
                     (''fix'', Str ''Add build_runner to dev_dependencies''),
                     (''file'', Str ''pubspec.yaml'')]]
              else [])))
      else Inr [])"

definition analyze_test_issues :: "project \<Rightarrow> exn + issue list" where
  "analyze_test_issues p = Inr (
     (if files p ''test'' = None
      then [[(''type'', Str ''test_directory_missing''), (''severity'', Str ''high''),
             (''description'', Str ''No test directory found''),
             (''fix'', Str ''Create test directory with unit tests''),
             (''file'', Str ''test/'')]]
      else if length (test_files p) = 0
      then [[(''type'', Str ''no_test_files''), (''severity'', Str ''high''),
             (''description'', Str ''No test files found in test directory''),
             (''fix'', Str ''Add unit tests to test directory''),
             (''file'', Str ''test/'')]]
      else []) @
     (if files p ''integration_test'' = None
      then [[(''type'', Str ''integration_test_missing''), (''severity'', Str ''medium''),
             (''description'', Str ''No integration test directory''),
             (''fix'', Str ''Create integration_test directory with integration tests''),
             (''file'', Str ''integration_test/'')]]
      else []) @
     (case run_tool p [''flutter'', ''test'', ''--coverage''] of
        Completed returncode out \<Rightarrow>
          (if returncode \<noteq> 0
           then [[(''type'', Str ''test_coverage_failed''), (''severity'', Str ''medium''),
                  (''description'', Str ''Test coverage check failed''),
                  (''fix'', Str ''Fix failing tests and ensure proper coverage''),
                  (''file'', Str ''test/'')]]
           else [])
      | Tool_raises e \<Rightarrow>
          [[(''type'', Str ''test_coverage_check_failed''), (''severity'', Str ''low''),
            (''description'', Str (''Failed to check test coverage: '' @ e)),
            (''fix'', Str ''Ensure Flutter SDK is properly installed''),
            (''file'', Str ''test/'')]]))"

definition sensitive_patterns :: "string list" where
  "sensitive_patterns =
     [''password'' @ [BSL] @ ''s*='' @ [BSL] @ ''s*['' @ [BSL, SQ, DQ] @ '']'',
      ''api[_-]*key'' @ [BSL] @ ''s*='' @ [BSL] @ ''s*['' @ [BSL, SQ, DQ] @ '']'',
      ''secret'' @ [BSL] @ ''s*='' @ [BSL] @ ''s*['' @ [BSL, SQ, DQ] @ '']'',
      ''token'' @ [BSL] @ ''s*='' @ [BSL] @ ''s*['' @ [SQ, DQ] @ '']'',
      ''private[_-]*key'' @ [BSL] @ ''s*='' @ [BSL] @ ''s*['' @ [SQ, DQ] @ '']'']"

definition vulnerable_packages :: "string list" where
  "vulnerable_packages = [''http: ^0.13.5'', ''path: ^1.8.3'']"

definition analyze_security_issues :: "project \<Rightarrow> exn + issue list" where
  "analyze_security_issues p = Inr (
     concat (map (\<lambda>(name, path, readable).
        (case readable of
           None \<Rightarrow> []
         | Some content \<Rightarrow>
             concat (map (\<lambda>pattern.
               if re_search p pattern content
               then [[(''type'', Str ''sensitive_data_found''), (''severity'', Str ''high''),
                      (''description'', Str (''Sensitive data pattern found in '' @ name)),
                      (''fix'', Str ''Remove or secure sensitive data''),
                      (''file'', Str path)]]
               else []) sensitive_patterns))) (dart_files p)) @
     (case run_tool p [''flutter'', ''pub'', ''deps''] of
        Completed returncode out \<Rightarrow>
          (if returncode = 0 then
             concat (map (\<lambda>package.
               if str_in package out
               then [[(''type'', Str ''vulnerable_dependency''), (''severity'', Str ''high''),
                      (''description'', Str (''Vulnerable dependency: '' @ package)),
                      (''fix'', Str (''Update to a newer version of '' @ package)),
                      (''file'', Str ''pubspec.yaml'')]]
               else []) vulnerable_packages)
           else [])
      | Tool_raises e \<Rightarrow>
          [[(''type'', Str ''dependency_security_check_failed''), (''severity'', Str ''low''),
            (''description'', Str (''Failed to check dependencies: '' @ e)),
            (''fix'', Str ''Ensure Flutter SDK is properly installed''),
            (''file'', Str ''pubspec.yaml'')]]))"

definition heavy_packages :: "string list" where
  "heavy_packages = [''firebase_core'', ''google_maps_flutter'', ''camera'', ''video_player'']"

text \<open>
  In \<open>analyze_performance_issues\<close> the variable \<open>content\<close> is assigned only when
  \<open>pubspec.yaml\<close> exists, and is read after the \<open>if\<close> in either case.
\<close>

definition analyze_performance_issues :: "project \<Rightarrow> exn + issue list" where
  "analyze_performance_issues p =
     (if files p ''pubspec.yaml'' \<noteq> None then
        (case read_text (files p) ''pubspec.yaml'' of
           Inl e \<Rightarrow> Inl e
         | Inr content \<Rightarrow> Inr (
             concat (map (\<lambda>package.
               if str_in package content
               then [[(''type'', Str ''heavy_dependency''), (''lazy'', Str ''medium''),
                      (''description'', Str (''Heavy dependency: '' @ package)),
                      (''fix'', Str ''Consider lazy loading or alternatives''),
                      (''file'', Str ''pubspec.yaml'')]]
               else []) heavy_packages) @
             (if \<not> str_in ''cached_network_image:'' content \<and> str_in ''http:'' content
              then [[(''type'', Str ''image_caching_missing''), (''severity'', Str ''medium''),
                     (''description'', Str ''HTTP requests without caching''),
                     (''fix'', Str ''Add cached_network_image for HTTP requests''),
                     (''file'', Str ''pubspec.yaml'')]]
              else [])))
      else Inl (UnboundLocalError ''content''))"

subsection \<open>The pipeline\<close>

text \<open>What \<open>analyze_ci_cd_failure\<close> returns: the error dictionary or the report.\<close>

datatype analysis = Not_found string | Report "issue list"

text \<open>
  \<open>analyze_ci_cd_failure\<close>. \<open>report\<close> is the list \<open>analysis_report["issues"]\<close> of the
  analyzer before the call; the result is the outcome of the call (an exception that
  leaves the method, or its return value) and that list after the call.
\<close>

definition analyze_ci_cd_failure ::
  "project \<Rightarrow> issue list \<Rightarrow> string \<Rightarrow> (exn + analysis) \<times> issue list"
where
  "analyze_ci_cd_failure p report workflow_file =
     (if files p workflow_file = None
      then (Inr (Not_found (''Workflow file not found: '' @ workflow_file)), report)
      else case read_text (files p) workflow_file of
        Inl e \<Rightarrow> (Inl e, report)
      | Inr content \<Rightarrow>
          (let r1 = report @ analyze_workflow_structure content in
           case analyze_dependency_issues p of
             Inl e \<Rightarrow> (Inl e, r1)
           | Inr i2 \<Rightarrow>
          (let r2 = r1 @ i2 in
           case analyze_build_issues p of
             Inl e \<Rightarrow> (Inl e, r2)
           | Inr i3 \<Rightarrow>
          (let r3 = r2 @ i3 in
           case analyze_test_issues p of
             Inl e \<Rightarrow> (Inl e, r3)
           | Inr i4 \<Rightarrow>
          (let r4 = r3 @ i4 in
           case analyze_security_issues p of
             Inl e \<Rightarrow> (Inl e, r4)
           | Inr i5 \<Rightarrow>
          (let r5 = r4 @ i5 in
           case analyze_performance_issues p of
             Inl e \<Rightarrow> (Inl e, r5)
           | Inr i6 \<Rightarrow> (Inr (Report (r5 @ i6)), r5 @ i6)))))))"

subsection \<open>The timeout fix\<close>

text \<open>The loop of \<open>fix_timeout_missing\<close> over the lines of the workflow.\<close>

fun add_timeout_lines :: "string list \<Rightarrow> string list" where
  "add_timeout_lines [] = []"
| "add_timeout_lines (line # rest) =
     (if str_in ''jobs:'' line \<or> str_in ''steps:'' line
      then line # ''    timeout-minutes: 30'' # add_timeout_lines rest
      else line # add_timeout_lines rest)"

text \<open>The content that \<open>fix_timeout_missing\<close> writes back for the content it read.\<close>

definition timeout_fixed :: "string \<Rightarrow> string" where
  "timeout_fixed content = join [NL] (add_timeout_lines (split_on NL content))"

text \<open>
  \<open>fix_timeout_missing\<close> on the files of the project: the result is an exception that
  leaves the method, or the files after the call and the returned message. Writing a
  file that could be read succeeds.
\<close>

definition fix_timeout_missing ::
  "(string \<Rightarrow> fnode option) \<Rightarrow> issue \<Rightarrow> exn + (string \<Rightarrow> fnode option) \<times> string"
where
  "fix_timeout_missing fs issue =
     (case (case map_of issue ''file'' of
              None \<Rightarrow> Inr ''.github/workflows/ci.yml''
            | Some (Str f) \<Rightarrow> Inr f
            | Some _ \<Rightarrow> Inl (TypeError ''unsupported operand type(s) for /'')) of
        Inl e \<Rightarrow> Inl e
      | Inr workflow_file \<Rightarrow>
          (case read_text fs workflow_file of
             Inl e \<Rightarrow> Inr (fs, ''Failed to fix timeout: '' @ exn_text e)
           | Inr content \<Rightarrow>
               Inr (fs(workflow_file \<mapsto> File (timeout_fixed content)),
                    ''Added timeout-minutes: 30 to jobs'')))"

text \<open>The issues of a list that carry a given rule name in \<open>"type"\<close>.\<close>

definition issues_of_rule :: "string \<Rightarrow> issue list \<Rightarrow> issue list" where
  "issues_of_rule rule issues = filter (\<lambda>i. map_of i ''type'' = Some (Str rule)) issues"

section \<open>Notions used in the statements\<close>

text \<open>Some line of the content contains \<open>jobs:\<close> or \<open>steps:\<close>.\<close>

definition has_anchor :: "string \<Rightarrow> bool" where
  "has_anchor content =
     list_ex (\<lambda>line. str_in ''jobs:'' line \<or> str_in ''steps:'' line) (split_on NL content)"

abbreviation ci_yml :: string where
  "ci_yml \<equiv> ''.github/workflows/ci.yml''"

text \<open>The files after a call of \<open>fix_timeout_missing\<close> (unchanged when the call raises).\<close>

definition after_timeout_fix :: "(string \<Rightarrow> fnode option) \<Rightarrow> issue \<Rightarrow> (string \<Rightarrow> fnode option)" where
  "after_timeout_fix fs issue =
     (case fix_timeout_missing fs issue of Inl e \<Rightarrow> fs | Inr (fs', msg) \<Rightarrow> fs')"

text \<open>The content of a file, \<open>None\<close> when it cannot be read.\<close>

definition content_of :: "(string \<Rightarrow> fnode option) \<Rightarrow> string \<Rightarrow> string option" where
  "content_of fs path = (case read_text fs path of Inl e \<Rightarrow> None | Inr c \<Rightarrow> Some c)"

text \<open>
  At most one command is in flight, and \<open>is_building\<close> is set exactly while one is.
\<close>

definition single_flight :: "bm_state \<Rightarrow> bool" where
  "single_flight s = (if is_building s then length (in_flight s) = 1 else in_flight s = [])"

text \<open>A line after which \<open>fix_timeout_missing\<close> inserts the timeout.\<close>

definition is_anchor :: "string \<Rightarrow> bool" where
  "is_anchor line = (str_in ''jobs:'' line \<or> str_in ''steps:'' line)"


text \<open>Concrete inputs for the examples.\<close>

definition example_attempt :: attempt where
  "example_attempt = \<lparr>a_command = ''flutter build apk'', a_description = ''Build APK'',
     a_success = True, a_duration = 2, a_error_message = None, a_time1 = 0, a_time2 = 0,
     a_saved = True\<rparr>"

definition example_failure :: attempt where
  "example_failure = \<lparr>a_command = ''flutter build web'', a_description = ''Build Web'',
     a_success = False, a_duration = 1, a_error_message = Some ''Unknown error'',
     a_time1 = 0, a_time2 = 0, a_saved = True\<rparr>"


definition example_files :: "string \<Rightarrow> string \<Rightarrow> string \<Rightarrow> fnode option" where
  "example_files workflow pubspec =
     (\<lambda>path. None)(''.github/workflows/ci.yml'' \<mapsto> File workflow, ''pubspec.yaml'' \<mapsto> File pubspec)"


section \<open>Properties of the build history and statistics\<close>


lemma record_total:
  "total_builds (stats (record_build_attempt s a)) = total_builds (stats s) + 1"
  by (simp add: record_build_attempt_def save_build_history_def Let_def)

lemma record_successful:
  "successful_builds (stats (record_build_attempt s a)) =
     successful_builds (stats s) + (if a_success a then 1 else 0)"
  by (simp add: record_build_attempt_def save_build_history_def Let_def)

lemma record_failed:
  "failed_builds (stats (record_build_attempt s a)) =
     failed_builds (stats s) + (if a_success a then 0 else 1)"
  by (simp add: record_build_attempt_def save_build_history_def Let_def)



lemma success_build_record_of [simp]: "success (build_record_of a) = a_success a"
  by (simp add: build_record_of_def)

lemma duration_build_record_of [simp]: "duration (build_record_of a) = a_duration a"
  by (simp add: build_record_of_def)


lemma record_all_Nil [simp]: "record_all s [] = s"
  by (simp add: record_all_def)

lemma record_all_Cons [simp]: "record_all s (a # as) = record_all (record_build_attempt s a) as"
  by (simp add: record_all_def)




lemma record_all_total:
  "total_builds (stats (record_all s as)) = total_builds (stats s) + int (length as)"
  by (induction as arbitrary: s) (simp_all add: record_total)


lemma start_app_None: "start_app None = \<lparr>build_history = [], stats = zero_stats, history_file = None\<rparr>"
  by (simp add: start_app_def load_build_history_def)





lemma record_all_counts:
  "successful_builds (stats (record_all s as)) =
     successful_builds (stats s) + int (length (filter a_success as))
   \<and> failed_builds (stats (record_all s as)) =
     failed_builds (stats s) + int (length (filter (\<lambda>a. \<not> a_success a) as))"
  by (induction as arbitrary: s) (simp_all add: record_successful record_failed)



lemma lower_simps [simp]: "lower [] = []"
  by (simp add: lower_def)








text \<open>
  Claim C10. Every call of \<open>record_build_attempt\<close> adds one to \<open>total_builds\<close> and
  one to exactly one of \<open>successful_builds\<close> and \<open>failed_builds\<close>; starting from the
  zeroed statistics, after any sequence of calls the two add up to the total and the
  success rate lies between 0 and 100.
\<close>

theorem counters_invariant:
  assumes "stats s = zero_stats"
  shows "total_builds (stats (record_build_attempt t a)) = total_builds (stats t) + 1
       \<and> successful_builds (stats (record_build_attempt t a))
           = successful_builds (stats t) + (if a_success a then 1 else 0)
       \<and> failed_builds (stats (record_build_attempt t a))
           = failed_builds (stats t) + (if a_success a then 0 else 1)
       \<and> successful_builds (stats (record_all s as)) + failed_builds (stats (record_all s as))
           = total_builds (stats (record_all s as))
       \<and> 0 \<le> calculate_success_rate (record_all s as)
       \<and> calculate_success_rate (record_all s as) \<le> 100"
proof -
  let ?r = "record_all s as"
  have z: "total_builds (stats s) = 0" "successful_builds (stats s) = 0"
    "failed_builds (stats s) = 0"
    using assms by (simp_all add: zero_stats_def)
  have t: "total_builds (stats ?r) = int (length as)"
    by (simp add: record_all_total z)
  have su: "successful_builds (stats ?r) = int (length (filter a_success as))"
    and fa: "failed_builds (stats ?r) = int (length (filter (\<lambda>a. \<not> a_success a) as))"
    using record_all_counts [of s as] by (simp_all add: z)
  have sum: "length (filter a_success as) + length (filter (\<lambda>a. \<not> a_success a) as) = length as"
    by (rule sum_length_filter_compl)
  have inv: "successful_builds (stats ?r) + failed_builds (stats ?r) = total_builds (stats ?r)"
    using sum by (simp add: t su fa flip: of_nat_add)
  have le: "successful_builds (stats ?r) \<le> total_builds (stats ?r)"
    by (simp add: t su)
  have nn: "0 \<le> successful_builds (stats ?r)"
    by (simp add: su)
  have r0: "0 \<le> calculate_success_rate ?r"
    using nn le by (simp add: calculate_success_rate_def Let_def)
  have r1: "calculate_success_rate ?r \<le> 100"
  proof (cases "total_builds (stats ?r) = 0")
    case True
    then show ?thesis by (simp add: calculate_success_rate_def)
  next
    case False
    with nn le have pos: "0 < real_of_int (total_builds (stats ?r))" by simp
    have "real_of_int (successful_builds (stats ?r)) / real_of_int (total_builds (stats ?r)) \<le> 1"
      using pos le by (simp add: divide_le_eq_1)
    then have "real_of_int (successful_builds (stats ?r)) / real_of_int (total_builds (stats ?r)) * 100
                 \<le> 1 * 100"
      by (rule mult_right_mono) simp
    moreover have "calculate_success_rate ?r =
        real_of_int (successful_builds (stats ?r)) / real_of_int (total_builds (stats ?r)) * 100"
      using False by (simp add: calculate_success_rate_def Let_def)
    ultimately show ?thesis by simp
  qed
  show ?thesis
    using inv r0 r1 by (simp add: record_total record_successful record_failed)
qed

text \<open>The theorem at the fresh application.\<close>

theorem counters_invariant_witness:
  "stats (start_app None) = zero_stats
   \<and> total_builds (stats (record_build_attempt (start_app None) example_failure)) = 1
   \<and> failed_builds (stats (record_build_attempt (start_app None) example_failure)) = 1
   \<and> calculate_success_rate (record_all (start_app None) [example_attempt, example_failure]) = 50"
proof -
  have z: "stats (start_app None) = zero_stats"
    by (simp add: start_app_None)
  show ?thesis
    using counters_invariant [OF z, of "start_app None" example_failure "[example_attempt, example_failure]"]
    by (simp add: start_app_None zero_stats_def example_failure_def example_attempt_def
          calculate_success_rate_def record_total record_successful)
qed

section \<open>Properties of running a Flutter command\<close>

lemma is_error_line_Nil: "is_error_line [] = False"
  by (simp add: is_error_line_def any_in_def error_patterns_def)

lemma read_lines_detected:
  "fst (snd (read_lines lines (ol, ed, det))) = (ed \<or> list_ex is_error_line lines)"
  by (induction lines arbitrary: ol ed det) (auto simp: is_error_line_Nil)

text \<open>
  Claim C2. \<open>run_flutter_command\<close> returns, and records in the history, success
  exactly when the return code is 0 and no output line matches an error pattern; a
  command that prints \<open>error: something broke\<close> and exits with 0 does not succeed.
\<close>

theorem run_flutter_success_iff:
  "fst (snd (run_flutter_command h cmd (Exited lines returncode) now))
     = (returncode = 0 \<and> \<not> list_ex is_error_line lines)
   \<and> (\<exists>e. fst (run_flutter_command h cmd (Exited lines returncode) now) = h @ [e]
          \<and> fe_success e = (returncode = 0 \<and> \<not> list_ex is_error_line lines))
   \<and> fst (snd (run_flutter_command h cmd (Exited [''error: something broke'' @ [NL]] 0) now))
     = False"
proof -
  have d: "\<And>ls. fst (snd (read_lines ls ([], False, []))) = list_ex is_error_line ls"
    by (simp add: read_lines_detected)
  have b: "is_error_line (''error: something broke'' @ [NL])"
    by (simp add: is_error_line_def any_in_def error_patterns_def)
  have g: "\<And>ls rc. fst (snd (run_flutter_command h cmd (Exited ls rc) now))
     = (rc = 0 \<and> \<not> list_ex is_error_line ls)"
    using d by (simp add: run_flutter_command_def Let_def split_beta)
  have e: "\<And>ls rc. \<exists>e. fst (run_flutter_command h cmd (Exited ls rc) now) = h @ [e]
          \<and> fe_success e = (rc = 0 \<and> \<not> list_ex is_error_line ls)"
    using d by (simp add: run_flutter_command_def Let_def split_beta)
  show ?thesis
    using g e b by simp
qed

text \<open>
  The theorem at a run whose second line matches \<open>failed:\<close>.
\<close>

theorem run_flutter_success_iff_witness:
  "fst (snd (run_flutter_command [] [''flutter'', ''build'', ''apk'']
       (Exited [''Running Gradle task'' @ [NL], ''Build failed: see log'' @ [NL]] 0) ''2024-01-01''))
     = False"
proof -
  have "list_ex is_error_line [''Running Gradle task'' @ [NL], ''Build failed: see log'' @ [NL]]"
    by (simp add: is_error_line_def any_in_def error_patterns_def)
  then show ?thesis
    using run_flutter_success_iff [of "[]" "[''flutter'', ''build'', ''apk'']"
        "[''Running Gradle task'' @ [NL], ''Build failed: see log'' @ [NL]]" 0 "''2024-01-01''"]
    by simp
qed

section \<open>Properties of the line classification\<close>




section \<open>Properties of the single-flight guard\<close>

lemma single_flight_step: "single_flight s \<Longrightarrow> single_flight (bm_step s ev)"
  by (cases ev)
     (auto simp: single_flight_def run_command_def run_in_thread_def Let_def
           split: list.splits if_splits)

lemma single_flight_foldl: "single_flight s \<Longrightarrow> single_flight (foldl bm_step s evs)"
  by (induction evs arbitrary: s) (simp_all add: single_flight_step)

lemma single_flight_run: "single_flight (bm_run evs)"
  unfolding bm_run_def
  by (rule single_flight_foldl) (simp add: single_flight_def bm_init_def)

text \<open>
  Claim C4, as the code has it. A call of \<open>run_command\<close> while \<open>is_building\<close> is
  set is rejected without queuing: it shows the warning dialog "Build in Progress" and
  returns normally, changing nothing else, so no second worker or process is started and
  the run in flight is unaffected. Along every sequence of calls and worker ends from the
  initial state at most one command is in flight, exactly while \<open>is_building\<close> is set.
\<close>

theorem busy_run_rejected:
  "(is_building s \<longrightarrow>
      run_command s cmd descr =
        (s\<lparr>warnings := warnings s @
             [(''Build in Progress'', ''Another build is already running!'')]\<rparr>, Inr ()))
   \<and> length (in_flight (bm_run evs)) \<le> 1
   \<and> (is_building (bm_run evs) \<longleftrightarrow> in_flight (bm_run evs) \<noteq> [])"
  using single_flight_run [of evs]
  by (auto simp: run_command_def single_flight_def split: if_splits)

text \<open>
  The theorem at a second call while the first command is in flight.
\<close>

theorem busy_run_rejected_witness:
  "is_building (bm_run [Run_command ''flutter build apk'' ''Build APK''])
   \<and> in_flight (fst (run_command (bm_run [Run_command ''flutter build apk'' ''Build APK''])
         ''flutter test'' ''Run tests'')) = [(''flutter build apk'', ''Build APK'')]
   \<and> warnings (fst (run_command (bm_run [Run_command ''flutter build apk'' ''Build APK''])
         ''flutter test'' ''Run tests''))
       = [(''Build in Progress'', ''Another build is already running!'')]"
proof -
  have b: "is_building (bm_run [Run_command ''flutter build apk'' ''Build APK''])"
    by (simp add: bm_run_def bm_init_def run_command_def)
  show ?thesis
    using b busy_run_rejected [of "bm_run [Run_command ''flutter build apk'' ''Build APK'']"
        "''flutter test''" "''Run tests''" "[]"]
    by (simp add: bm_run_def bm_init_def run_command_def)
qed

text \<open>
  Claim C4 as stated asks for a \<open>BusyError\<close>: the second call returns normally
  instead of failing.
\<close>

theorem busy_run_rejected_counterexample:
  "snd (run_command (fst (run_command bm_init ''flutter build apk'' ''Build APK''))
         ''flutter test'' ''Run tests'') = Inr ()"
  by (simp add: run_command_def bm_init_def)

section \<open>Properties of the quality report\<close>




section \<open>Properties of the timeout rule and its fix\<close>

lemma str_in_sublist: "str_in pat s = sublist pat s"
  by (induction s) (simp_all add: sublist_Cons_right)

lemma split_on_not_Nil [simp]: "split_on sep s \<noteq> []"
  by (induction s) (simp_all split: list.splits)

lemma join_Cons: "ls \<noteq> [] \<Longrightarrow> join sep (l # ls) = l @ sep @ join sep ls"
  by (cases ls) simp_all

lemma join_split_on: "join [sep] (split_on sep s) = s"
proof (induction s)
  case Nil
  show ?case by simp
next
  case (Cons c s)
  obtain l ls where sp: "split_on sep s = l # ls"
    by (cases "split_on sep s") simp_all
  show ?case
  proof (cases "c = sep")
    case True
    then show ?thesis using Cons by (simp add: join_Cons)
  next
    case False
    then show ?thesis using Cons sp by (cases ls) simp_all
  qed
qed

lemma split_on_no_sep: "l \<in> set (split_on sep s) \<Longrightarrow> sep \<notin> set l"
proof (induction s arbitrary: l)
  case Nil
  then show ?case by simp
next
  case (Cons c s)
  obtain x xs where sp: "split_on sep s = x # xs"
    by (cases "split_on sep s") simp_all
  have x: "sep \<notin> set x" and xs: "\<And>y. y \<in> set xs \<Longrightarrow> sep \<notin> set y"
    using Cons.IH sp by simp_all
  show ?case
    using Cons.prems sp x xs by (auto split: if_splits)
qed

lemma split_on_free: "sep \<notin> set l \<Longrightarrow> split_on sep l = [l]"
  by (induction l) (auto split: list.splits)

lemma split_on_append:
  "sep \<notin> set l \<Longrightarrow> split_on sep (l @ sep # s) = l # split_on sep s"
  by (induction l) (auto split: list.splits)

lemma split_on_join:
  "ls \<noteq> [] \<Longrightarrow> (\<And>l. l \<in> set ls \<Longrightarrow> sep \<notin> set l) \<Longrightarrow> split_on sep (join [sep] ls) = ls"
proof (induction ls)
  case Nil
  then show ?case by simp
next
  case (Cons l ls)
  show ?case
  proof (cases ls)
    case Nil
    then show ?thesis using Cons.prems by (simp add: split_on_free)
  next
    case (Cons m ms)
    then have "split_on sep (join [sep] ls) = ls"
      using Cons.IH Cons.prems by simp
    then show ?thesis
      using Cons Cons.prems by (simp add: split_on_append)
  qed
qed

lemma inserted_line_no_anchor: "\<not> is_anchor ''    timeout-minutes: 30''"
  by (simp add: is_anchor_def)

lemma add_timeout_lines_anchor:
  "add_timeout_lines (line # rest) =
     (if is_anchor line then line # ''    timeout-minutes: 30'' # add_timeout_lines rest
      else line # add_timeout_lines rest)"
  by (simp add: is_anchor_def)

lemma length_add_timeout_lines:
  "length (add_timeout_lines ls) = length ls + length (filter is_anchor ls)"
  by (induction ls) (simp_all add: is_anchor_def)

lemma anchors_add_timeout_lines:
  "length (filter is_anchor (add_timeout_lines ls)) = length (filter is_anchor ls)"
proof (induction ls)
  case Nil
  show ?case by simp
next
  case (Cons l ls)
  show ?case
    unfolding add_timeout_lines_anchor
    using Cons inserted_line_no_anchor by simp
qed

lemma add_timeout_lines_id:
  "filter is_anchor ls = [] \<Longrightarrow> add_timeout_lines ls = ls"
  by (induction ls) (simp_all add: is_anchor_def split: if_splits)

lemma add_timeout_lines_not_Nil: "ls \<noteq> [] \<Longrightarrow> add_timeout_lines ls \<noteq> []"
  by (cases ls) simp_all

lemma add_timeout_lines_no_NL:
  "(\<And>l. l \<in> set ls \<Longrightarrow> NL \<notin> set l) \<Longrightarrow> l \<in> set (add_timeout_lines ls) \<Longrightarrow> NL \<notin> set l"
  by (induction ls arbitrary: l) (auto split: if_splits)

lemma add_timeout_lines_inserts:
  "filter is_anchor ls \<noteq> [] \<Longrightarrow> ''    timeout-minutes: 30'' \<in> set (add_timeout_lines ls)"
  by (induction ls) (auto simp: is_anchor_def split: if_splits)

lemma split_timeout_fixed:
  "split_on NL (timeout_fixed c) = add_timeout_lines (split_on NL c)"
proof -
  have ne: "add_timeout_lines (split_on NL c) \<noteq> []"
    by (simp add: add_timeout_lines_not_Nil)
  have free: "\<And>l. l \<in> set (add_timeout_lines (split_on NL c)) \<Longrightarrow> NL \<notin> set l"
  proof -
    fix l assume "l \<in> set (add_timeout_lines (split_on NL c))"
    moreover have "\<And>k. k \<in> set (split_on NL c) \<Longrightarrow> NL \<notin> set k"
      by (rule split_on_no_sep)
    ultimately show "NL \<notin> set l"
      using add_timeout_lines_no_NL by blast
  qed
  show ?thesis
    unfolding timeout_fixed_def using ne free by (rule split_on_join)
qed

lemma has_anchor_filter: "has_anchor c = (filter is_anchor (split_on NL c) \<noteq> [])"
  by (auto simp: has_anchor_def is_anchor_def list_ex_iff filter_empty_conv)

lemma timeout_fixed_id: "\<not> has_anchor c \<Longrightarrow> timeout_fixed c = c"
  by (simp add: has_anchor_filter timeout_fixed_def add_timeout_lines_id join_split_on)

lemma length_split_fixed:
  "length (split_on NL (timeout_fixed c)) =
     length (split_on NL c) + length (filter is_anchor (split_on NL c))"
  by (simp add: split_timeout_fixed length_add_timeout_lines)

lemma length_split_fixed_twice:
  "length (split_on NL (timeout_fixed (timeout_fixed c))) =
     length (split_on NL c) + 2 * length (filter is_anchor (split_on NL c))"
  by (simp add: split_timeout_fixed length_add_timeout_lines anchors_add_timeout_lines)

lemma timeout_fixed_idem_iff:
  "timeout_fixed (timeout_fixed c) = timeout_fixed c \<longleftrightarrow> \<not> has_anchor c"
proof
  assume eq: "timeout_fixed (timeout_fixed c) = timeout_fixed c"
  have "length (split_on NL (timeout_fixed (timeout_fixed c))) = length (split_on NL (timeout_fixed c))"
    by (simp only: eq)
  then have "length (filter is_anchor (split_on NL c)) = 0"
    using length_split_fixed [of c] length_split_fixed_twice [of c] by arith
  then show "\<not> has_anchor c"
    by (simp add: has_anchor_filter)
next
  assume "\<not> has_anchor c"
  then show "timeout_fixed (timeout_fixed c) = timeout_fixed c"
    by (simp add: timeout_fixed_id)
qed

lemma sublist_join: "l \<in> set ls \<Longrightarrow> sublist pat l \<Longrightarrow> sublist pat (join sep ls)"
proof (induction sep ls rule: join.induct)
  case (1 sep)
  then show ?case by simp
next
  case (2 sep x)
  then show ?case by simp
next
  case (3 sep x y ys)
  show ?case
  proof (cases "l = x")
    case True
    then show ?thesis
      using "3.prems"(2) by (simp add: sublist_append)
  next
    case False
    then have "sublist pat (join sep (y # ys))"
      using 3 by simp
    then show ?thesis
      by (simp add: sublist_append)
  qed
qed

lemma timeout_fixed_has_timeout:
  assumes "has_anchor c" shows "str_in ''timeout-minutes:'' (timeout_fixed c)"
proof -
  have m: "''    timeout-minutes: 30'' \<in> set (add_timeout_lines (split_on NL c))"
    using assms by (simp add: has_anchor_filter add_timeout_lines_inserts)
  have s: "sublist ''timeout-minutes:'' ''    timeout-minutes: 30''"
    unfolding str_in_sublist [symmetric] by simp
  show ?thesis
    unfolding str_in_sublist timeout_fixed_def using m s by (rule sublist_join)
qed

lemma fix_timeout_default:
  assumes "map_of issue ''file'' = None" and "fs ci_yml = Some (File c)"
  shows "fix_timeout_missing fs issue =
           Inr (fs(ci_yml \<mapsto> File (timeout_fixed c)), ''Added timeout-minutes: 30 to jobs'')"
  using assms by (simp add: fix_timeout_missing_def read_text_def)

lemma after_fix_default:
  assumes "map_of issue ''file'' = None" and "fs ci_yml = Some (File c)"
  shows "after_timeout_fix fs issue = fs(ci_yml \<mapsto> File (timeout_fixed c))"
  using fix_timeout_default [of issue fs c] assms by (simp add: after_timeout_fix_def)

lemma content_of_File: "fs path = Some (File c) \<Longrightarrow> content_of fs path = Some c"
  by (simp add: content_of_def read_text_def)

lemma timeout_issues:
  "issues_of_rule ''timeout_missing'' (analyze_workflow_structure c) =
     (if \<not> str_in ''timeout-minutes:'' c
      then [[(''type'', Str ''timeout_missing''), (''severity'', Str ''medium''),
             (''description'', Str ''No timeout specified for jobs''),
             (''fix'', Str ''Add timeout-minutes to all jobs''),
             (''line'', find_line_number c ''jobs:'')]]
      else [])"
  by (simp add: issues_of_rule_def analyze_workflow_structure_def)

lemma fixed_jobs: "timeout_fixed ''jobs:'' = ''jobs:'' @ [NL] @ ''    timeout-minutes: 30''"
  by (simp add: timeout_fixed_def)

lemma fixed_jobs_twice:
  "timeout_fixed (''jobs:'' @ [NL] @ ''    timeout-minutes: 30'') =
     ''jobs:'' @ [NL] @ ''    timeout-minutes: 30'' @ [NL] @ ''    timeout-minutes: 30''"
  by (simp add: timeout_fixed_def)

lemma no_anchor_name: "\<not> has_anchor ''name: CI''"
  by (simp add: has_anchor_def)

lemma no_timeout_name: "\<not> str_in ''timeout-minutes:'' ''name: CI''"
  by simp

lemma no_timeout_jobs: "\<not> str_in ''timeout-minutes:'' ''jobs:''"
  by simp

lemma example_files_ci: "example_files w p ci_yml = Some (File w)"
  by (simp add: example_files_def)

text \<open>
  Claim C6, as the code has it. For an issue without a \<open>file\<close> entry,
  \<open>fix_timeout_missing\<close> rewrites the workflow file ci.yml. It inserts one timeout
  line after every line that contains \<open>jobs:\<close> or \<open>steps:\<close>, each time it is
  applied: applying it to its own output changes nothing exactly when the content has no
  such line (then the first application changes nothing either); otherwise every
  application adds as many lines as there are such lines.
\<close>

theorem timeout_fix_idempotence:
  assumes "map_of issue ''file'' = None" and "fs ci_yml = Some (File c)"
  shows "content_of (after_timeout_fix fs issue) ci_yml = Some (timeout_fixed c)
       \<and> content_of (after_timeout_fix (after_timeout_fix fs issue) issue) ci_yml
           = Some (timeout_fixed (timeout_fixed c))
       \<and> (timeout_fixed (timeout_fixed c) = timeout_fixed c \<longleftrightarrow> \<not> has_anchor c)
       \<and> (\<not> has_anchor c \<longrightarrow> timeout_fixed c = c)
       \<and> length (split_on NL (timeout_fixed (timeout_fixed c))) =
           length (split_on NL (timeout_fixed c)) + length (filter is_anchor (split_on NL c))"
proof -
  let ?fs1 = "after_timeout_fix fs issue"
  have 1: "?fs1 = fs(ci_yml \<mapsto> File (timeout_fixed c))"
    using after_fix_default [of issue fs c] assms by simp
  then have f1: "?fs1 ci_yml = Some (File (timeout_fixed c))" by simp
  have 2: "after_timeout_fix ?fs1 issue = ?fs1(ci_yml \<mapsto> File (timeout_fixed (timeout_fixed c)))"
    using after_fix_default [of issue ?fs1 "timeout_fixed c"] assms(1) f1 by simp
  have c1: "content_of ?fs1 ci_yml = Some (timeout_fixed c)"
    using f1 by (rule content_of_File)
  have c2: "content_of (after_timeout_fix ?fs1 issue) ci_yml = Some (timeout_fixed (timeout_fixed c))"
    unfolding 2 by (rule content_of_File) simp
  have l: "length (split_on NL (timeout_fixed (timeout_fixed c))) =
           length (split_on NL (timeout_fixed c)) + length (filter is_anchor (split_on NL c))"
    using length_split_fixed [of c] length_split_fixed_twice [of c] by arith
  show ?thesis
    using c1 c2 l timeout_fixed_idem_iff [of c] timeout_fixed_id [of c] by blast
qed

text \<open>
  The theorem at a workflow without such a line.
\<close>

theorem timeout_fix_idempotence_witness:
  "timeout_fixed (timeout_fixed ''name: CI'') = timeout_fixed ''name: CI''
   \<and> content_of (after_timeout_fix (example_files ''name: CI'' ''name: app'') []) ci_yml
       = Some ''name: CI''"
proof -
  have a: "map_of ([] :: issue) ''file'' = None" by simp
  have b: "example_files ''name: CI'' ''name: app'' ci_yml = Some (File ''name: CI'')"
    by (rule example_files_ci)
  have f: "timeout_fixed ''name: CI'' = ''name: CI''"
    using no_anchor_name by (rule timeout_fixed_id)
  note r = timeout_fix_idempotence [of "[]" "example_files ''name: CI'' ''name: app''" "''name: CI''", OF a b]
  from r have 1: "content_of (after_timeout_fix (example_files ''name: CI'' ''name: app'') []) ci_yml
       = Some (timeout_fixed ''name: CI'')"
    by (rule conjunct1)
  from r have 2: "(timeout_fixed (timeout_fixed ''name: CI'') = timeout_fixed ''name: CI'')
       = (\<not> has_anchor ''name: CI'')"
    by blast
  show ?thesis
    using 1 2 no_anchor_name unfolding f by blast
qed

text \<open>
  Claim C6 as stated fails at the workflow \<open>jobs:\<close>: the second application of the
  fix inserts a second timeout line.
\<close>

theorem timeout_fix_idempotence_counterexample:
  "content_of (after_timeout_fix (example_files ''jobs:'' ''name: app'')
       (hd (issues_of_rule ''timeout_missing'' (analyze_workflow_structure ''jobs:'')))) ci_yml
     = Some (''jobs:'' @ [NL] @ ''    timeout-minutes: 30'')
   \<and> content_of (after_timeout_fix (after_timeout_fix (example_files ''jobs:'' ''name: app'')
       (hd (issues_of_rule ''timeout_missing'' (analyze_workflow_structure ''jobs:''))))
       (hd (issues_of_rule ''timeout_missing'' (analyze_workflow_structure ''jobs:'')))) ci_yml
     = Some (''jobs:'' @ [NL] @ ''    timeout-minutes: 30'' @ [NL] @ ''    timeout-minutes: 30'')"
proof -
  let ?i = "hd (issues_of_rule ''timeout_missing'' (analyze_workflow_structure ''jobs:''))"
  let ?fs = "example_files ''jobs:'' ''name: app''"
  have a: "map_of ?i ''file'' = None"
    by (simp add: timeout_issues)
  have 1: "after_timeout_fix ?fs ?i = ?fs(ci_yml \<mapsto> File (timeout_fixed ''jobs:''))"
    using a example_files_ci by (rule after_fix_default [of ?i ?fs "''jobs:''"])
  have f1: "after_timeout_fix ?fs ?i ci_yml = Some (File (timeout_fixed ''jobs:''))"
    unfolding 1 by (rule fun_upd_same)
  have 2: "after_timeout_fix (after_timeout_fix ?fs ?i) ?i =
             (after_timeout_fix ?fs ?i)(ci_yml \<mapsto> File (timeout_fixed (timeout_fixed ''jobs:'')))"
    using a f1 by (rule after_fix_default [of ?i "after_timeout_fix ?fs ?i" "timeout_fixed ''jobs:''"])
  have c1: "content_of (after_timeout_fix ?fs ?i) ci_yml = Some (timeout_fixed ''jobs:'')"
    using f1 by (rule content_of_File)
  have c2: "content_of (after_timeout_fix (after_timeout_fix ?fs ?i) ?i) ci_yml
              = Some (timeout_fixed (timeout_fixed ''jobs:''))"
    unfolding 2 by (rule content_of_File) (rule fun_upd_same)
  have t: "timeout_fixed (timeout_fixed ''jobs:'') =
     ''jobs:'' @ [NL] @ ''    timeout-minutes: 30'' @ [NL] @ ''    timeout-minutes: 30''"
    unfolding fixed_jobs by (rule fixed_jobs_twice)
  show ?thesis
    unfolding c1 c2 t by (simp only: fixed_jobs)
qed

text \<open>
  Claim C7, as the code has it. For a workflow content without \<open>timeout-minutes:\<close>
  the analysis reports exactly one issue of the rule \<open>timeout_missing\<close>; when some
  line of the content contains \<open>jobs:\<close> or \<open>steps:\<close> and the content is that of
  ci.yml, the file that the fix rewrites, the analysis of the fixed content reports no
  issue of that rule.
\<close>

theorem timeout_issue_resolved:
  assumes "\<not> str_in ''timeout-minutes:'' c"
  shows "\<exists>i. issues_of_rule ''timeout_missing'' (analyze_workflow_structure c) = [i]
           \<and> (has_anchor c \<and> fs ci_yml = Some (File c) \<longrightarrow>
                content_of (after_timeout_fix fs i) ci_yml = Some (timeout_fixed c)
              \<and> issues_of_rule ''timeout_missing''
                   (analyze_workflow_structure (timeout_fixed c)) = [])"
proof -
  let ?i = "[(''type'', Str ''timeout_missing''), (''severity'', Str ''medium''),
             (''description'', Str ''No timeout specified for jobs''),
             (''fix'', Str ''Add timeout-minutes to all jobs''),
             (''line'', find_line_number c ''jobs:'')]"
  have one: "issues_of_rule ''timeout_missing'' (analyze_workflow_structure c) = [?i]"
    using assms by (simp add: timeout_issues)
  have nofile: "map_of ?i ''file'' = None"
    by simp
  have fixd: "has_anchor c \<and> fs ci_yml = Some (File c) \<longrightarrow>
                content_of (after_timeout_fix fs ?i) ci_yml = Some (timeout_fixed c)
              \<and> issues_of_rule ''timeout_missing''
                   (analyze_workflow_structure (timeout_fixed c)) = []"
  proof (intro impI conjI)
    assume h: "has_anchor c \<and> fs ci_yml = Some (File c)"
    from h have fc: "fs ci_yml = Some (File c)" by simp
    have u: "after_timeout_fix fs ?i = fs(ci_yml \<mapsto> File (timeout_fixed c))"
      using nofile fc by (rule after_fix_default [of ?i fs c])
    show "content_of (after_timeout_fix fs ?i) ci_yml = Some (timeout_fixed c)"
      unfolding u by (rule content_of_File) (rule fun_upd_same)
    have "str_in ''timeout-minutes:'' (timeout_fixed c)"
      using h by (simp add: timeout_fixed_has_timeout)
    then show "issues_of_rule ''timeout_missing''
                   (analyze_workflow_structure (timeout_fixed c)) = []"
      by (simp add: timeout_issues)
  qed
  show ?thesis
    using one fixd by blast
qed

text \<open>
  The theorem at the workflow \<open>jobs:\<close>.
\<close>

theorem timeout_issue_resolved_witness:
  "\<not> str_in ''timeout-minutes:'' ''jobs:''
   \<and> has_anchor ''jobs:''
   \<and> example_files ''jobs:'' ''name: app'' ci_yml = Some (File ''jobs:'')
   \<and> length (issues_of_rule ''timeout_missing'' (analyze_workflow_structure ''jobs:'')) = 1
   \<and> issues_of_rule ''timeout_missing''
        (analyze_workflow_structure (timeout_fixed ''jobs:'')) = []"
proof -
  have a: "has_anchor ''jobs:''"
    by (simp add: has_anchor_def)
  show ?thesis
    using timeout_issue_resolved [OF no_timeout_jobs, of "example_files ''jobs:'' ''name: app''"] a
      example_files_ci [of "''jobs:''" "''name: app''"] no_timeout_jobs
    by auto
qed

text \<open>
  Claim C7 as stated fails at the workflow \<open>name: CI\<close>, which has no line with
  \<open>jobs:\<close> or \<open>steps:\<close>: the fix leaves the content as it is, and the analysis
  of the result reports the issue again.
\<close>

theorem timeout_issue_resolved_counterexample:
  "\<not> str_in ''timeout-minutes:'' ''name: CI''
   \<and> length (issues_of_rule ''timeout_missing'' (analyze_workflow_structure ''name: CI'')) = 1
   \<and> content_of (after_timeout_fix (example_files ''name: CI'' ''name: app'')
        (hd (issues_of_rule ''timeout_missing'' (analyze_workflow_structure ''name: CI'')))) ci_yml
       = Some ''name: CI''
   \<and> length (issues_of_rule ''timeout_missing''
        (analyze_workflow_structure (timeout_fixed ''name: CI''))) = 1"
proof -
  let ?i = "hd (issues_of_rule ''timeout_missing'' (analyze_workflow_structure ''name: CI''))"
  let ?fs = "example_files ''name: CI'' ''name: app''"
  have a: "map_of ?i ''file'' = None"
    by (simp add: timeout_issues)
  have f: "timeout_fixed ''name: CI'' = ''name: CI''"
    using no_anchor_name by (rule timeout_fixed_id)
  have 1: "after_timeout_fix ?fs ?i = ?fs(ci_yml \<mapsto> File (timeout_fixed ''name: CI''))"
    using a example_files_ci by (rule after_fix_default [of ?i ?fs "''name: CI''"])
  have c1: "content_of (after_timeout_fix ?fs ?i) ci_yml = Some (timeout_fixed ''name: CI'')"
    unfolding 1 by (rule content_of_File) (rule fun_upd_same)
  have n: "length (issues_of_rule ''timeout_missing'' (analyze_workflow_structure ''name: CI'')) = 1"
    using no_timeout_name by (simp add: timeout_issues)
  show ?thesis
    unfolding c1 f using n no_timeout_name by simp
qed

section \<open>Properties of the analysis pipeline\<close>

lemma read_text_File: "fs path = Some (File c) \<Longrightarrow> read_text fs path = Inr c"
  by (simp add: read_text_def)









lemma missing_pubspec_raises:
  assumes "files p workflow_file = Some (File c)" and "files p ''pubspec.yaml'' = None"
  shows "fst (analyze_ci_cd_failure p report workflow_file) = Inl (UnboundLocalError ''content'')"
  using assms
  by (simp add: analyze_ci_cd_failure_def read_text_File Let_def analyze_dependency_issues_def
        analyze_build_issues_def analyze_test_issues_def analyze_security_issues_def
        analyze_performance_issues_def)










end
